theory Spec2Isabelle
  imports Main
begin

section \<open>GoXMLProcessor: the XML feed parser and the static site generator\<close>

text \<open>
  The development follows the program of \<^verbatim>\<open>src/ImageProcessor.go\<close> whose \<^verbatim>\<open>main\<close> starts
  at line 905 (the file also holds two earlier drafts of the same program). Go strings are
  byte sequences, modelled as \<^typ>\<open>string\<close> (a list of 8-bit characters).

  Pointers are addresses into explicit stores. Every \<^verbatim>\<open>Work\<close> that \<^verbatim>\<open>createWork\<close> allocates is
  appended to the slice \<^verbatim>\<open>works\<close> at once, and every \<^verbatim>\<open>Make\<close> that \<^verbatim>\<open>createMake\<close> allocates to
  the slice \<^verbatim>\<open>makes\<close>, so a \<^verbatim>\<open>*Work\<close> is the index of the work in \<^verbatim>\<open>works\<close> and a \<^verbatim>\<open>*Make\<close>
  the index of the make in \<^verbatim>\<open>makes\<close>. A \<^verbatim>\<open>*Model\<close> is the index of the model in a store of all
  allocated models. A nil pointer is \<^term>\<open>None\<close>.
\<close>

subsection \<open>Types (lines 1394-1420)\<close>

text \<open>
  The three structs share the field names \<^verbatim>\<open>ID\<close>, \<^verbatim>\<open>Name\<close>, \<^verbatim>\<open>Works\<close> and \<^verbatim>\<open>PageURL\<close>; record
  fields live in one name space, so the fields of \<^verbatim>\<open>Make\<close> and \<^verbatim>\<open>Model\<close> carry the struct's
  name in front.
\<close>

record Work =
  ID :: int
  FileName :: string
  WMake :: "nat option"
  WModel :: "nat option"
  URISmall :: string
  URIMedium :: string
  URILarge :: string

record Make =
  MakeID :: int
  MakeName :: string
  Models :: "nat list"
  MakeWorks :: "nat list"
  MakePageURL :: string

record Model =
  ModelID :: int
  MMake :: "nat option"
  ModelWorks :: "nat list"
  ModelName :: string
  ModelPageURL :: string

subsection \<open>Library functions of Go used by the program\<close>

text \<open>
  \<^verbatim>\<open>strings.TrimSpace\<close> removes leading and trailing white space as \<^verbatim>\<open>unicode.IsSpace\<close>
  defines it: the ASCII characters tab, line feed, vertical tab, form feed, carriage return
  and space, and the UTF-8 encodings of U+0085, U+00A0, U+1680, U+2000 to U+200A, U+2028,
  U+2029, U+202F, U+205F and U+3000.
\<close>

definition asciiSpace :: "char \<Rightarrow> bool" where
  "asciiSpace c =
     (c = CHR 0x09 \<or> c = CHR 0x0A \<or> c = CHR 0x0B \<or> c = CHR 0x0C \<or> c = CHR 0x0D \<or> c = CHR 0x20)"

definition space2 :: "char \<Rightarrow> char \<Rightarrow> bool" where
  "space2 a b = (a = CHR 0xC2 \<and> (b = CHR 0x85 \<or> b = CHR 0xA0))"

definition space3 :: "char \<Rightarrow> char \<Rightarrow> char \<Rightarrow> bool" where
  "space3 a b c =
     ((a = CHR 0xE1 \<and> b = CHR 0x9A \<and> c = CHR 0x80) \<or>
      (a = CHR 0xE2 \<and> b = CHR 0x80 \<and>
         ((0x80 \<le> (of_char c :: nat) \<and> (of_char c :: nat) \<le> 0x8A) \<or>
          c = CHR 0xA8 \<or> c = CHR 0xA9 \<or> c = CHR 0xAF)) \<or>
      (a = CHR 0xE2 \<and> b = CHR 0x81 \<and> c = CHR 0x9F) \<or>
      (a = CHR 0xE3 \<and> b = CHR 0x80 \<and> c = CHR 0x80))"

text \<open>
  \<open>dropSpaces p2 p3\<close> removes white space from the front of a byte string; \<open>p2\<close> and \<open>p3\<close>
  recognise the two-byte and three-byte encodings (given in reading order for the left end
  and in reverse for the right end).
\<close>

fun dropSpaces ::
  "(char \<Rightarrow> char \<Rightarrow> bool) \<Rightarrow> (char \<Rightarrow> char \<Rightarrow> char \<Rightarrow> bool) \<Rightarrow> string \<Rightarrow> string" where
  "dropSpaces p2 p3 (a # b # c # cs) =
     (if asciiSpace a then dropSpaces p2 p3 (b # c # cs)
      else if p2 a b then dropSpaces p2 p3 (c # cs)
      else if p3 a b c then dropSpaces p2 p3 cs
      else a # b # c # cs)"
| "dropSpaces p2 p3 [a, b] =
     (if asciiSpace a then dropSpaces p2 p3 [b]
      else if p2 a b then []
      else [a, b])"
| "dropSpaces p2 p3 [a] = (if asciiSpace a then [] else [a])"
| "dropSpaces p2 p3 [] = []"

definition TrimSpace :: "string \<Rightarrow> string" where
  "TrimSpace s =
     rev (dropSpaces (\<lambda>a b. space2 b a) (\<lambda>a b c. space3 c b a) (rev (dropSpaces space2 space3 s)))"

text \<open>
  \<^verbatim>\<open>strconv.Atoi\<close> (base 10, 64-bit \<^verbatim>\<open>int\<close>): an optional sign, then one or more decimal
  digits, and a value that fits the type; anything else is an error (\<^term>\<open>None\<close>).
\<close>

definition isDigit :: "char \<Rightarrow> bool" where
  "isDigit c = (48 \<le> (of_char c :: nat) \<and> (of_char c :: nat) \<le> 57)"

definition digitsVal :: "string \<Rightarrow> int" where
  "digitsVal ds = foldl (\<lambda>n c. n * 10 + (of_char c - 48)) 0 ds"

definition Atoi :: "string \<Rightarrow> int option" where
  "Atoi s =
     (let neg = (s \<noteq> [] \<and> hd s = CHR ''-'');
          ds = (if s \<noteq> [] \<and> (hd s = CHR ''-'' \<or> hd s = CHR ''+'') then tl s else s)
      in if ds = [] \<or> \<not> list_all isDigit ds then None
         else if neg then
           (if digitsVal ds \<le> 2 ^ 63 then Some (- digitsVal ds) else None)
         else
           (if digitsVal ds < 2 ^ 63 then Some (digitsVal ds) else None))"

text \<open>
  \<^verbatim>\<open>regexp.Compile("[^A-Za-z0-9]+")\<close> followed by \<^verbatim>\<open>ReplaceAllString(name, "-")\<close>: scanning from
  the left, a character of the class \<^verbatim>\<open>[A-Za-z0-9]\<close> is copied, and at any other character
  the longest match of the pattern (all the following characters outside the class) is
  replaced by the replacement text. Every byte of a multi-byte UTF-8 sequence is outside the
  class, so the result on bytes is the result on runes.
\<close>

definition isAlnum :: "char \<Rightarrow> bool" where
  "isAlnum c =
     ((65 \<le> (of_char c :: nat) \<and> (of_char c :: nat) \<le> 90) \<or>
      (97 \<le> (of_char c :: nat) \<and> (of_char c :: nat) \<le> 122) \<or>
      (48 \<le> (of_char c :: nat) \<and> (of_char c :: nat) \<le> 57))"

function ReplaceAllString :: "string \<Rightarrow> string \<Rightarrow> string" where
  "ReplaceAllString [] repl = []"
| "ReplaceAllString (c # cs) repl =
     (if isAlnum c then c # ReplaceAllString cs repl
      else repl @ ReplaceAllString (dropWhile (\<lambda>d. \<not> isAlnum d) cs) repl)"
  by pat_completeness auto
termination
  by (relation "measure (\<lambda>(s, repl). length s)")
     (auto simp: length_dropWhile_le less_Suc_eq_le)

text \<open>
  \<^verbatim>\<open>html.EscapeString\<close> escapes the five characters \<^verbatim>\<open>&\<close>, \<^verbatim>\<open>'\<close>, \<^verbatim>\<open><\<close>, \<^verbatim>\<open>>\<close> and the double
  quote (byte 0x22).
\<close>

definition escapeChar :: "char \<Rightarrow> string" where
  "escapeChar c =
     (if c = CHR ''&'' then ''&amp;''
      else if c = CHR 0x27 then ''&#39;''
      else if c = CHR ''<'' then ''&lt;''
      else if c = CHR ''>'' then ''&gt;''
      else if c = CHR 0x22 then ''&#34;''
      else [c])"

definition EscapeString :: "string \<Rightarrow> string" where
  "EscapeString s = concat (map escapeChar s)"

subsection \<open>Type generator functions (lines 1424-1464)\<close>

definition createMake :: "string \<Rightarrow> Make" where
  "createMake name =
     \<lparr>MakeID = 0, MakeName = name, Models = [], MakeWorks = [],
      MakePageURL = ReplaceAllString name ''-''\<rparr>"

definition createModel :: "string \<Rightarrow> nat option \<Rightarrow> Model" where
  "createModel name mk =
     \<lparr>ModelID = 0, MMake = mk, ModelWorks = [], ModelName = name,
      ModelPageURL = ReplaceAllString name ''-''\<rparr>"

definition createWork :: Work where
  "createWork =
     \<lparr>ID = - 1, FileName = [], WMake = None, WModel = None,
      URISmall = [], URIMedium = [], URILarge = []\<rparr>"

subsection \<open>The token stream\<close>

text \<open>
  The tokens of \<^verbatim>\<open>encoding/xml\<close>. Of a start element the program reads the local name and the
  attributes (name and value), of an end element the local name. Comments, processing
  instructions and directives match no case of the program's switch.
\<close>

datatype Token =
    StartElement string "(string \<times> string) list"
  | EndElement string
  | CharData string
  | Comment string
  | ProcInst string string
  | Directive string

text \<open>
  One call of \<^verbatim>\<open>dec.Token()\<close> yields a token or an error other than \<^verbatim>\<open>io.EOF\<close>; the end of
  the list is \<^verbatim>\<open>io.EOF\<close>.
\<close>

datatype Read = Tok Token | ReadError

text \<open>
  The ways the run ends early: the calls of \<^verbatim>\<open>os.Exit(1)\<close> by the line of their message, and
  the two run-time panics of Go the loop can raise (a nil pointer dereference at
  \<^verbatim>\<open>newWork.WMake\<close>, an index out of range at \<^verbatim>\<open>works[len(works)-1]\<close>).
\<close>

datatype Error =
    TokenReadError
  | PopWithoutElement
  | ClosingWithoutOpener
  | IDConversionError
  | IDWithoutWork
  | FilenameWithoutWork
  | MakeWithoutWork
  | NoWorksRecorded
  | NilDereference
  | IndexOutOfRange

subsection \<open>The variables of \<^verbatim>\<open>main\<close> (lines 931-953)\<close>

abbreviation IDTAG :: string where "IDTAG \<equiv> ''id''"
abbreviation FILENAME :: string where "FILENAME \<equiv> ''filename''"
abbreviation WORK :: string where "WORK \<equiv> ''work''"
abbreviation MODEL :: string where "MODEL \<equiv> ''model''"
abbreviation MAKE :: string where "MAKE \<equiv> ''make''"
abbreviation URISMALL :: string where "URISMALL \<equiv> ''small''"
abbreviation URIMEDIUM :: string where "URIMEDIUM \<equiv> ''medium''"
abbreviation URILARGE :: string where "URILARGE \<equiv> ''large''"

text \<open>
  \<open>stack\<close> grows at its end, as the slice does. \<open>works\<close> and \<open>makes\<close> are the slices and the
  stores of their elements at once; \<open>models\<close> is the store of the allocated models.
\<close>

record State =
  stack :: "string list"
  works :: "Work list"
  makes :: "Make list"
  models :: "Model list"
  worksSM :: "nat list"
  newWork :: "nat option"
  newModelDetected :: bool
  newModel :: string
  thumbnailURI :: bool
  mediumURI :: bool
  largeURI :: bool

definition init_state :: State where
  "init_state =
     \<lparr>stack = [], works = [], makes = [], models = [], worksSM = [], newWork = None,
      newModelDetected = False, newModel = [], thumbnailURI = False, mediumURI = False,
      largeURI = False\<rparr>"

definition top :: "State \<Rightarrow> string \<Rightarrow> bool" where
  \<comment> \<open>\<^verbatim>\<open>len(stack) > 0 && stack[len(stack)-1] == tag\<close>\<close>
  "top s tag = (length (stack s) > 0 \<and> last (stack s) = tag)"

definition andThen :: "Error + 'a \<Rightarrow> ('a \<Rightarrow> Error + 'b) \<Rightarrow> Error + 'b" where
  "andThen r f = (case r of Inl e \<Rightarrow> Inl e | Inr x \<Rightarrow> f x)"

subsection \<open>Start elements (lines 973-998)\<close>

definition attrFlags :: "State \<Rightarrow> string \<times> string \<Rightarrow> State" where
  "attrFlags s val =
     (let s1 = (if snd val = URISMALL then s\<lparr>thumbnailURI := True\<rparr> else s);
          s2 = (if snd val = URIMEDIUM then s1\<lparr>mediumURI := True\<rparr> else s1)
      in if snd val = URILARGE then s2\<lparr>largeURI := True\<rparr> else s2)"

definition startElement :: "State \<Rightarrow> string \<Rightarrow> (string \<times> string) list \<Rightarrow> State" where
  "startElement s name attrs =
     (let s1 = s\<lparr>stack := stack s @ [name]\<rparr>;
          s2 = (if top s1 WORK
                then s1\<lparr>works := works s1 @ [createWork], newWork := Some (length (works s1))\<rparr>
                else s1)
      in if top s2 ''url'' then foldl attrFlags s2 attrs else s2)"

subsection \<open>End elements (lines 1000-1042)\<close>

definition appendMakeWorks :: "Make list \<Rightarrow> nat \<Rightarrow> nat \<Rightarrow> Make list" where
  \<comment> \<open>\<^verbatim>\<open>thisMake.Works = append(thisMake.Works, thisWork)\<close>\<close>
  "appendMakeWorks ms mk w = ms[mk := (ms ! mk)\<lparr>MakeWorks := MakeWorks (ms ! mk) @ [w]\<rparr>]"

definition appendModelWorks :: "Model list \<Rightarrow> nat \<Rightarrow> nat \<Rightarrow> Model list" where
  \<comment> \<open>\<^verbatim>\<open>thisModel.Works = append(thisModel.Works, thisWork)\<close>\<close>
  "appendModelWorks ms md w = ms[md := (ms ! md)\<lparr>ModelWorks := ModelWorks (ms ! md) @ [w]\<rparr>]"

definition finalizeWork :: "State \<Rightarrow> Error + State" where
  "finalizeWork s =
     (case newWork s of
        None \<Rightarrow> Inl NilDereference
      | Some thisWork \<Rightarrow>
          (let thisMake = WMake (works s ! thisWork);
               thisModel = WModel (works s ! thisWork);
               s1 = (if thisMake = None then s\<lparr>worksSM := worksSM s @ [thisWork]\<rparr> else s);
               s2 = (case thisMake of
                       None \<Rightarrow> s1
                     | Some mk \<Rightarrow>
                         (case thisModel of
                            None \<Rightarrow> s1
                          | Some md \<Rightarrow>
                              s1\<lparr>makes := appendMakeWorks (makes s1) mk thisWork,
                                 models := appendModelWorks (models s1) md thisWork\<rparr>))
           in Inr (s2\<lparr>newWork := None, newModelDetected := False, newModel := []\<rparr>)))"

definition endElement :: "State \<Rightarrow> string \<Rightarrow> Error + State" where
  "endElement s name =
     (if length (stack s) \<le> 0 then Inl PopWithoutElement
      else
        (let elementPopped = last (stack s);
             s1 = s\<lparr>stack := butlast (stack s)\<rparr>
         in if elementPopped \<noteq> name then Inl ClosingWithoutOpener
            else if elementPopped = WORK then finalizeWork s1
            else Inr s1))"

subsection \<open>Character data (lines 1044-1190)\<close>

definition setLastWork :: "State \<Rightarrow> (Work \<Rightarrow> Work) \<Rightarrow> Error + State" where
  \<comment> \<open>an assignment to a field of \<^verbatim>\<open>works[len(works)-1]\<close>, which panics on an empty slice\<close>
  "setLastWork s f =
     (if works s = [] then Inl IndexOutOfRange
      else Inr (s\<lparr>works := (works s)[length (works s) - 1 := f (last (works s))]\<rparr>))"

definition handleID :: "State \<Rightarrow> string \<Rightarrow> Error + State" where
  "handleID s token =
     (if top s IDTAG then
        (case Atoi (TrimSpace token) of
           None \<Rightarrow> Inl IDConversionError
         | Some IDData \<Rightarrow>
             (case newWork s of
                Some w \<Rightarrow> Inr (s\<lparr>works := (works s)[w := (works s ! w)\<lparr>ID := IDData\<rparr>]\<rparr>)
              | None \<Rightarrow> Inl IDWithoutWork))
      else Inr s)"

definition handleFilename :: "State \<Rightarrow> string \<Rightarrow> Error + State" where
  "handleFilename s token =
     (if top s FILENAME then
        (case newWork s of
           Some w \<Rightarrow>
             Inr (s\<lparr>works := (works s)[w := (works s ! w)\<lparr>FileName := TrimSpace token\<rparr>]\<rparr>)
         | None \<Rightarrow> Inl FilenameWithoutWork)
      else Inr s)"

text \<open>The scan of \<^verbatim>\<open>makes\<close> stops at the first make of the name (lines 1092-1098).\<close>

fun findMake :: "Make list \<Rightarrow> string \<Rightarrow> nat \<Rightarrow> nat option" where
  "findMake [] name i = None"
| "findMake (m # ms) name i = (if MakeName m = name then Some i else findMake ms name (Suc i))"

definition internMake :: "State \<Rightarrow> string \<Rightarrow> Error + (State \<times> nat)" where
  \<comment> \<open>lines 1086-1108; the result carries the local \<^verbatim>\<open>thisMake\<close>\<close>
  "internMake s token =
     (let thisToken = (if token = [] then ''(Generic make)'' else token)
      in case findMake (makes s) thisToken 0 of
           Some mk \<Rightarrow>
             andThen (setLastWork s (\<lambda>w. w\<lparr>WMake := Some mk\<rparr>)) (\<lambda>s1. Inr (s1, mk))
         | None \<Rightarrow>
             (let mk = length (makes s);
                  s1 = s\<lparr>makes := makes s @ [createMake thisToken]\<rparr>
              in andThen (setLastWork s1 (\<lambda>w. w\<lparr>WMake := Some mk\<rparr>)) (\<lambda>s2. Inr (s2, mk))))"

text \<open>
  The scan of the make's models has no \<^verbatim>\<open>break\<close>: the last model of the name wins
  (lines 1134-1139).
\<close>

fun findModel :: "Model list \<Rightarrow> nat list \<Rightarrow> string \<Rightarrow> nat option \<Rightarrow> nat option" where
  "findModel store [] name found = found"
| "findModel store (md # mds) name found =
     findModel store mds name (if ModelName (store ! md) = name then Some md else found)"

definition resolveModel :: "State \<Rightarrow> nat \<Rightarrow> Error + State" where
  \<comment> \<open>lines 1115-1157, with \<^verbatim>\<open>thisMake\<close> as the make the scan above found or created\<close>
  "resolveModel s thisMake =
     (if newModelDetected s then
        (if length (works s) > 0 then
           (let thisWork = length (works s) - 1;
                s1 = (if newModel s = [] then s\<lparr>newModel := ''(Generic model)''\<rparr> else s);
                found = (case WMake (works s1 ! thisWork) of
                           Some mk \<Rightarrow>
                             findModel (models s1) (Models (makes s1 ! mk)) (newModel s1) None
                         | None \<Rightarrow> None);
                s2 = (case found of
                        Some md \<Rightarrow>
                          s1\<lparr>works :=
                               (works s1)[thisWork := (works s1 ! thisWork)\<lparr>WModel := Some md\<rparr>]\<rparr>
                      | None \<Rightarrow>
                          (let md = length (models s1);
                               s3 = s1\<lparr>models := models s1 @ [createModel (newModel s1) (Some thisMake)]\<rparr>;
                               s4 = (case WMake (works s3 ! thisWork) of
                                       Some mk \<Rightarrow>
                                         s3\<lparr>makes :=
                                              (makes s3)[mk := (makes s3 ! mk)
                                                 \<lparr>Models := Models (makes s3 ! mk) @ [md]\<rparr>],
                                            works :=
                                              (works s3)[thisWork := (works s3 ! thisWork)
                                                 \<lparr>WModel := Some md\<rparr>]\<rparr>
                                     | None \<Rightarrow> s3)
                           in s4\<lparr>newModel := []\<rparr>))
            in Inr (s2\<lparr>newModelDetected := False\<rparr>))
         else Inl NoWorksRecorded)
      else Inr s)"

definition handleMake :: "State \<Rightarrow> string \<Rightarrow> Error + State" where
  "handleMake s token =
     (if top s MAKE then
        (case newWork s of
           Some w \<Rightarrow>
             andThen (internMake s (TrimSpace token)) (\<lambda>(s1, thisMake). resolveModel s1 thisMake)
         | None \<Rightarrow> Inl MakeWithoutWork)
      else Inr s)"

definition handleModel :: "State \<Rightarrow> string \<Rightarrow> State" where
  "handleModel s token =
     (if top s MODEL then s\<lparr>newModel := TrimSpace token, newModelDetected := True\<rparr> else s)"

definition setLastWorkIfAny :: "State \<Rightarrow> (Work \<Rightarrow> Work) \<Rightarrow> State" where
  \<comment> \<open>an assignment to a field of \<^verbatim>\<open>works[len(works)-1]\<close> under \<^verbatim>\<open>if len(works) > 0\<close>\<close>
  "setLastWorkIfAny s f =
     (if length (works s) > 0
      then s\<lparr>works := (works s)[length (works s) - 1 := f (last (works s))]\<rparr>
      else s)"

definition handleURIs :: "State \<Rightarrow> string \<Rightarrow> State" where
  "handleURIs s token =
     (let s1 = (if thumbnailURI s
                then (setLastWorkIfAny s (\<lambda>w. w\<lparr>URISmall := TrimSpace token\<rparr>))
                       \<lparr>thumbnailURI := False\<rparr>
                else s);
          s2 = (if mediumURI s1
                then (setLastWorkIfAny s1 (\<lambda>w. w\<lparr>URIMedium := TrimSpace token\<rparr>))
                       \<lparr>mediumURI := False\<rparr>
                else s1)
      in if largeURI s2
         then (setLastWorkIfAny s2 (\<lambda>w. w\<lparr>URILarge := TrimSpace token\<rparr>))\<lparr>largeURI := False\<rparr>
         else s2)"

definition charData :: "State \<Rightarrow> string \<Rightarrow> Error + State" where
  "charData s token =
     andThen (handleID s token) (\<lambda>s1.
     andThen (handleFilename s1 token) (\<lambda>s2.
     andThen (handleMake s2 token) (\<lambda>s3.
     Inr (handleURIs (handleModel s3 token) token))))"

subsection \<open>The parse loop (lines 958-1192)\<close>

fun step :: "State \<Rightarrow> Read \<Rightarrow> Error + State" where
  "step s ReadError = Inl TokenReadError"
| "step s (Tok (StartElement name attrs)) = Inr (startElement s name attrs)"
| "step s (Tok (EndElement name)) = endElement s name"
| "step s (Tok (CharData token)) = charData s token"
| "step s (Tok other) = Inr s"

fun run :: "State \<Rightarrow> Read list \<Rightarrow> Error + State" where
  "run s [] = Inr s"
| "run s (r # rs) = andThen (step s r) (\<lambda>s1. run s1 rs)"

subsection \<open>Site generation (lines 1194-1388)\<close>

text \<open>
  The file system is a map from paths to contents. \<^verbatim>\<open>os.Create\<close> truncates the file of the
  path and the one \<^verbatim>\<open>WriteString\<close> that follows it gives the file its content; both are taken
  to succeed. Directories are not modelled.
\<close>

type_synonym FS = "string \<Rightarrow> string option"

definition writeFile :: "FS \<Rightarrow> string \<Rightarrow> string \<Rightarrow> FS" where
  "writeFile fs path content = fs(path \<mapsto> content)"

definition pagePath :: "string \<Rightarrow> string \<Rightarrow> string" where
  \<comment> \<open>\<^verbatim>\<open>"./" + outputFolderLocation + "/" + name + ".html"\<close>\<close>
  "pagePath out name = ''./'' @ out @ ''/'' @ name @ ''.html''"

definition styleBlock :: string where
  \<open>styleBlock = ''<style type="text/css">nav { margin: 10px;'' @ [CHR 0x09] @ ''}</style>''\<close>

definition imgTag :: "string \<Rightarrow> string" where
  "imgTag uri = ''<img src='' @ EscapeString uri @ ''> ''"

definition optionTag :: "string \<Rightarrow> string \<Rightarrow> string" where
  \<open>optionTag pageURL name =
     ''<option value="'' @ EscapeString pageURL @ ''.html">'' @ EscapeString name @ ''</option>''\<close>

definition indexNavigation :: "State \<Rightarrow> string" where
  \<open>indexNavigation s =
     ''<select onchange="if (this.value) window.location.href=this.value">'' @
     ''<option value="">-- select a camera make</option>'' @
     concat (map (\<lambda>mk. optionTag (MakePageURL mk) (MakeName mk)) (makes s)) @
     (if length (worksSM s) > 0
      then ''<option value="nomake.html">(no make/generic)</option></select>''
      else ''</select>'')\<close>

definition indexPage :: "State \<Rightarrow> string" where
  \<comment> \<open>the thumbnails of the first 10 works\<close>
  "indexPage s =
     ''<!DOCTYPE html><html><head><title>Welcome to Phoots!</title>'' @ styleBlock @
     ''</head><body><header><h1>Welcome to Photos!</h1><nav>'' @ indexNavigation s @
     ''</nav></header>'' @ concat (map (\<lambda>wk. imgTag (URISmall wk)) (take 10 (works s))) @
     ''</body></html>''"

definition worksOfMake :: "State \<Rightarrow> Make \<Rightarrow> nat list \<Rightarrow> nat list" where
  \<comment> \<open>\<^verbatim>\<open>wk != nil && wk.WMake != nil && wk.WMake.Name == mk.Name\<close>\<close>
  "worksOfMake s mk ws =
     filter (\<lambda>w. case WMake (works s ! w) of
                   None \<Rightarrow> False
                 | Some m \<Rightarrow> MakeName (makes s ! m) = MakeName mk) ws"

definition modelNavigation :: "State \<Rightarrow> Make \<Rightarrow> string" where
  \<open>modelNavigation s mk =
     ''<select onchange="if (this.value) window.location.href=this.value">'' @
     ''<option value="">-- select a camera model</option>'' @
     concat (map (\<lambda>md. optionTag (ModelPageURL (models s ! md)) (ModelName (models s ! md)))
               (Models mk)) @
     ''</select>''\<close>

definition makePage :: "State \<Rightarrow> Make \<Rightarrow> string" where
  \<comment> \<open>line 1300: the name is escaped in the title and written as it is in the heading\<close>
  \<open>makePage s mk =
     ''<!DOCTYPE html><html><head><title>All photos taken with a '' @ EscapeString (MakeName mk) @
     ''</title>'' @ styleBlock @
     ''</head><body><header><h1>All photos taken with a <i>'' @ MakeName mk @
     ''</i> camera</h1><nav><a href="index.html">back to homepage</a> | '' @
     modelNavigation s mk @ ''</nav></header>'' @
     concat (map (\<lambda>w. imgTag (URISmall (works s ! w)))
               (take 10 (worksOfMake s mk (MakeWorks mk)))) @
     ''</body></html>''\<close>

definition nomakePage :: "string \<Rightarrow> string" where
  \<comment> \<open>line 1339, with \<^verbatim>\<open>genericContent\<close> the image of the one work of the iteration\<close>
  \<open>nomakePage uri =
     ''<!DOCTYPE html><html><head><title>Generic Photographic Works</title>'' @ styleBlock @
     ''</head><body><header><h1>Generic Photos</h1><nav>'' @
     ''<a href="index.html">back to homepage</a> </nav></header>'' @ imgTag uri @
     ''</body></html>''\<close>

definition modelPage :: "State \<Rightarrow> Make \<Rightarrow> Model \<Rightarrow> string" where
  \<open>modelPage s mk md =
     ''<!DOCTYPE html><html><head><title>All photos taken with a '' @ EscapeString (ModelName md) @
     ''</title>'' @ styleBlock @
     ''</head><body><header><h1>All photos taken with a <i>'' @ EscapeString (ModelName md) @
     ''</i> camera</h1><nav><a href="index.html">back to homepage</a> | <a href="'' @
     EscapeString (MakePageURL mk) @ ''.html">back to make</a></nav></header>'' @
     concat (map (\<lambda>w. imgTag (URISmall (works s ! w)))
               (take 10 (worksOfMake s mk (ModelWorks md)))) @
     ''</body></html>''\<close>

definition writeIndex :: "string \<Rightarrow> State \<Rightarrow> FS \<Rightarrow> FS" where
  "writeIndex out s fs = writeFile fs (pagePath out ''index'') (indexPage s)"

definition writeMakes :: "string \<Rightarrow> State \<Rightarrow> FS \<Rightarrow> FS" where
  "writeMakes out s fs =
     foldl (\<lambda>f mk. writeFile f (pagePath out (MakePageURL mk)) (makePage s mk)) fs (makes s)"

definition writeNomake :: "string \<Rightarrow> State \<Rightarrow> FS \<Rightarrow> FS" where
  \<comment> \<open>lines 1312-1349: the file is created anew for every work of \<^verbatim>\<open>worksSM\<close>\<close>
  "writeNomake out s fs =
     foldl (\<lambda>f wk. writeFile f (pagePath out ''nomake'') (nomakePage (URISmall (works s ! wk))))
       fs (worksSM s)"

definition writeModels :: "string \<Rightarrow> State \<Rightarrow> FS \<Rightarrow> FS" where
  "writeModels out s fs =
     foldl (\<lambda>f mk.
        foldl (\<lambda>g md.
            writeFile g (pagePath out (ModelPageURL (models s ! md))) (modelPage s mk (models s ! md)))
          f (Models mk))
       fs (makes s)"

definition render :: "string \<Rightarrow> State \<Rightarrow> FS \<Rightarrow> FS" where
  "render out s fs = writeModels out s (writeNomake out s (writeMakes out s (writeIndex out s fs)))"

text \<open>
  The program from the parse loop on: \<open>out\<close> is the output directory of the command line,
  the reads are what the decoder yields for the body of the feed, \<open>fs\<close> is the file system at
  the start. The result is the error that ended the run, if any, and the file system at
  the end.
\<close>

definition main :: "string \<Rightarrow> Read list \<Rightarrow> FS \<Rightarrow> Error option \<times> FS" where
  "main out reads fs =
     (case run init_state reads of
        Inl e \<Rightarrow> (Some e, fs)
      | Inr s \<Rightarrow> (None, render out s fs))"

section \<open>Notions of the specification\<close>

text \<open>
  The slug as the specification words it: the name is cut into its maximal runs of
  characters of one kind (alphanumeric or not); a run of alphanumeric characters stays, a
  run of other characters becomes a single separator.
\<close>

function maximalRuns :: "string \<Rightarrow> string list" where
  "maximalRuns [] = []"
| "maximalRuns (c # cs) =
     (c # takeWhile (\<lambda>d. isAlnum d = isAlnum c) cs) #
     maximalRuns (dropWhile (\<lambda>d. isAlnum d = isAlnum c) cs)"
  by pat_completeness auto
termination
  by (relation "measure length") (auto simp: length_dropWhile_le less_Suc_eq_le)

definition slugSpec :: "string \<Rightarrow> string" where
  "slugSpec name = concat (map (\<lambda>r. if isAlnum (hd r) then r else ''-'') (maximalRuns name))"

text \<open>
  The make registry by name, and the name under which a make text token is interned: the
  trimmed text, or the generic label when nothing is left.
\<close>

definition makeNames :: "State \<Rightarrow> string list" where
  "makeNames s = map MakeName (makes s)"

definition normMake :: "string \<Rightarrow> string" where
  "normMake token = (if TrimSpace token = [] then ''(Generic make)'' else TrimSpace token)"

text \<open>
  A make text token fires when character data arrives while \<^verbatim>\<open>make\<close> is the innermost open
  element. \<open>makeTextName s r\<close> holds its name when the read \<open>r\<close> in the state \<open>s\<close> is one,
  \<open>makeTokens s rs\<close> lists the names of the make text tokens that fire while the loop reads
  \<open>rs\<close> from the state \<open>s\<close>, and \<open>makeFires s rs\<close> says that there is one.
\<close>

fun makeTextName :: "State \<Rightarrow> Read \<Rightarrow> string list" where
  "makeTextName s (Tok (CharData token)) = (if top s MAKE then [normMake token] else [])"
| "makeTextName s r = []"

fun makeTokens :: "State \<Rightarrow> Read list \<Rightarrow> string list" where
  "makeTokens s [] = []"
| "makeTokens s (r # rs) =
     makeTextName s r @ (case step s r of Inl e \<Rightarrow> [] | Inr s1 \<Rightarrow> makeTokens s1 rs)"

definition makeFires :: "State \<Rightarrow> Read list \<Rightarrow> bool" where
  "makeFires s rs = (makeTokens s rs \<noteq> [])"

text \<open>The state in which the loop ends on a feed it reads to the end.\<close>

definition stateAfter :: "Read list \<Rightarrow> State" where
  "stateAfter rs = (case run init_state rs of Inl e \<Rightarrow> init_state | Inr s \<Rightarrow> s)"

text \<open>The page names of all models, in the order in which their pages are written.\<close>

definition modelSlugs :: "State \<Rightarrow> string list" where
  "modelSlugs s = concat (map (\<lambda>mk. map (\<lambda>md. ModelPageURL (models s ! md)) (Models mk)) (makes s))"

text \<open>
  Feeds for the examples: an element with text and no attributes, and a \<^verbatim>\<open>url\<close> element
  with its \<^verbatim>\<open>type\<close> attribute.
\<close>

definition element :: "string \<Rightarrow> string \<Rightarrow> Read list" where
  "element name text = [Tok (StartElement name []), Tok (CharData text), Tok (EndElement name)]"

definition url :: "string \<Rightarrow> string \<Rightarrow> Read list" where
  "url kind text =
     [Tok (StartElement ''url'' [(''type'', kind)]), Tok (CharData text), Tok (EndElement ''url'')]"

section \<open>Properties\<close>

subsection \<open>Slugs\<close>

text \<open>
  \<open>maximalRuns\<close> cuts a string into its maximal runs: the runs put together give the string,
  a run is not empty and its characters are of one kind, and two neighbours are of
  different kinds.
\<close>

lemma maximalRuns_concat: "concat (maximalRuns s) = s"
  by (induction s rule: maximalRuns.induct) simp_all

lemma maximalRuns_same_kind:
  "r \<in> set (maximalRuns s) \<Longrightarrow> r \<noteq> [] \<and> (\<forall>d \<in> set r. isAlnum d = isAlnum (hd r))"
proof (induction s rule: maximalRuns.induct)
  case 1
  then show ?case by simp
next
  case (2 c cs)
  let ?P = "\<lambda>d. isAlnum d = isAlnum c"
  from "2.prems" consider
    (head) "r = c # takeWhile ?P cs" | (rest) "r \<in> set (maximalRuns (dropWhile ?P cs))"
    by (simp only: maximalRuns.simps set_simps insert_iff) blast
  then show ?case
  proof cases
    case head
    have kind: "isAlnum d = isAlnum c" if "d \<in> set r" for d
    proof -
      from that head have "d = c \<or> d \<in> set (takeWhile ?P cs)" by simp
      then show ?thesis by (blast dest: set_takeWhileD)
    qed
    from head have "hd r = c" and "r \<noteq> []" by simp_all
    with kind show ?thesis by blast
  next
    case rest
    then show ?thesis by (rule "2.IH")
  qed
qed

lemma maximalRuns_maximal:
  "maximalRuns s = pre @ r1 # r2 # post \<Longrightarrow> isAlnum (hd r2) \<noteq> isAlnum (hd r1)"
proof (induction s arbitrary: pre rule: maximalRuns.induct)
  case 1
  then show ?case by simp
next
  case (2 c cs)
  let ?rest = "dropWhile (\<lambda>d. isAlnum d = isAlnum c) cs"
  show ?case
  proof (cases pre)
    case Nil
    with "2.prems" have r1: "r1 = c # takeWhile (\<lambda>d. isAlnum d = isAlnum c) cs"
      and rest: "maximalRuns ?rest = r2 # post" by simp_all
    from rest obtain d ds where d: "?rest = d # ds"
      by (cases ?rest) simp_all
    then have "isAlnum d \<noteq> isAlnum c"
      using hd_dropWhile[of "\<lambda>d. isAlnum d = isAlnum c" cs] by auto
    moreover from rest d have "hd r2 = d" by auto
    ultimately show ?thesis using r1 by simp
  next
    case (Cons p ps)
    with "2.prems" have "maximalRuns ?rest = ps @ r1 # r2 # post" by simp
    then show ?thesis by (rule "2.IH")
  qed
qed

lemma ReplaceAllString_alnum_prefix:
  "\<forall>d \<in> set xs. isAlnum d \<Longrightarrow> ReplaceAllString (xs @ ys) repl = xs @ ReplaceAllString ys repl"
  by (induction xs) simp_all

lemma ReplaceAllString_slugSpec: "ReplaceAllString name ''-'' = slugSpec name"
proof (induction name rule: maximalRuns.induct)
  case 1
  show ?case by (simp add: slugSpec_def)
next
  case (2 c cs)
  let ?P = "\<lambda>d. isAlnum d = isAlnum c"
  have IH: "ReplaceAllString (dropWhile ?P cs) ''-'' = slugSpec (dropWhile ?P cs)"
    using 2 by simp
  show ?case
  proof (cases "isAlnum c")
    case True
    then have P: "?P = isAlnum" by auto
    have "ReplaceAllString (c # cs) ''-'' =
          c # ReplaceAllString (takeWhile isAlnum cs @ dropWhile isAlnum cs) ''-''"
      using True by simp
    also have "\<dots> = c # takeWhile isAlnum cs @ ReplaceAllString (dropWhile isAlnum cs) ''-''"
      by (subst ReplaceAllString_alnum_prefix) (auto dest: set_takeWhileD)
    finally have "ReplaceAllString (c # cs) ''-'' =
        c # takeWhile isAlnum cs @ ReplaceAllString (dropWhile isAlnum cs) ''-''" .
    moreover have "slugSpec (c # cs) = (c # takeWhile isAlnum cs) @ slugSpec (dropWhile isAlnum cs)"
      using True by (simp add: slugSpec_def P)
    ultimately show ?thesis using IH by (simp add: P)
  next
    case False
    then have P: "?P = (\<lambda>d. \<not> isAlnum d)" by auto
    have "ReplaceAllString (c # cs) ''-'' =
          ''-'' @ ReplaceAllString (dropWhile (\<lambda>d. \<not> isAlnum d) cs) ''-''"
      using False by simp
    moreover have "slugSpec (c # cs) = ''-'' @ slugSpec (dropWhile (\<lambda>d. \<not> isAlnum d) cs)"
      using False by (simp add: slugSpec_def P)
    ultimately show ?thesis using IH by (simp add: P)
  qed
qed

text \<open>
  C8. The page name that \<open>createMake\<close> and \<open>createModel\<close> derive from a name is the name with
  every maximal run of characters outside \<^verbatim>\<open>[A-Za-z0-9]\<close> replaced by one \<^verbatim>\<open>-\<close>. Both are
  functions of the name alone: the same name gives the same page name at every call.
\<close>

theorem slug_derivation:
  "MakePageURL (createMake name) = slugSpec name \<and>
   ModelPageURL (createModel name mk) = slugSpec name"
  by (simp add: createMake_def createModel_def ReplaceAllString_slugSpec)

subsection \<open>The loop on a list of reads\<close>

lemma andThen_Inr_iff: "andThen r f = Inr y \<longleftrightarrow> (\<exists>x. r = Inr x \<and> f x = Inr y)"
  by (cases r) (simp_all add: andThen_def)

lemma andThen_Inl: "andThen (Inl e) f = Inl e"
  by (simp add: andThen_def)

lemma andThen_Inr: "andThen (Inr x) f = f x"
  by (simp add: andThen_def)

lemma run_append: "run s (xs @ ys) = andThen (run s xs) (\<lambda>s1. run s1 ys)"
  by (induction xs arbitrary: s) (simp_all add: andThen_def split: sum.splits)

lemma run_snoc: "run s (xs @ [x]) = andThen (run s xs) (\<lambda>s1. step s1 x)"
  by (simp add: run_append andThen_def split: sum.splits)

subsection \<open>Malformed input\<close>

lemma endElement_malformed:
  "stack s = [] \<or> last (stack s) \<noteq> name \<Longrightarrow>
   endElement s name = Inl (if stack s = [] then PopWithoutElement else ClosingWithoutOpener)"
  by (auto simp: endElement_def Let_def)

lemma main_abort_writes_nothing: "fst (main out rs fs) \<noteq> None \<Longrightarrow> snd (main out rs fs) = fs"
  by (simp add: main_def split: sum.splits)

text \<open>
  C4. When an end tag arrives while the stack is empty, or while the innermost open element
  has another name, the run ends with the loop's error for it (an exit with status 1) and
  the file system is as it was: no output file is written. More generally, whenever the
  run is aborted no file is written, since the pages are written after the loop has read
  the whole feed.
\<close>

theorem malformed_end_tag_aborts:
  assumes "run init_state pre = Inr s"
    and "stack s = [] \<or> last (stack s) \<noteq> name"
  shows "run init_state (pre @ Tok (EndElement name) # post) =
           Inl (if stack s = [] then PopWithoutElement else ClosingWithoutOpener) \<and>
         main out (pre @ Tok (EndElement name) # post) fs =
           (Some (if stack s = [] then PopWithoutElement else ClosingWithoutOpener), fs) \<and>
         (\<forall>rs. fst (main out rs fs) \<noteq> None \<longrightarrow> snd (main out rs fs) = fs)"
proof -
  have "run init_state (pre @ Tok (EndElement name) # post) =
          andThen (endElement s name) (\<lambda>s1. run s1 post)"
    using assms(1) by (simp add: run_append andThen_Inr)
  also have "\<dots> = Inl (if stack s = [] then PopWithoutElement else ClosingWithoutOpener)"
    using assms(2) by (simp only: endElement_malformed andThen_Inl)
  finally have aborted: "run init_state (pre @ Tok (EndElement name) # post) =
      Inl (if stack s = [] then PopWithoutElement else ClosingWithoutOpener)" .
  then have "main out (pre @ Tok (EndElement name) # post) fs =
      (Some (if stack s = [] then PopWithoutElement else ClosingWithoutOpener), fs)"
    by (simp add: main_def)
  moreover have "\<forall>rs. fst (main out rs fs) \<noteq> None \<longrightarrow> snd (main out rs fs) = fs"
    by (blast intro: main_abort_writes_nothing)
  ultimately show ?thesis
    using aborted by blast
qed

text \<open>The feed \<^verbatim>\<open></work>\<close>: an end tag with no start tag before it.\<close>

theorem malformed_end_tag_aborts_witness:
  "run init_state [] = Inr init_state \<and> stack init_state = [] \<and>
   run init_state [Tok (EndElement ''work'')] = Inl PopWithoutElement \<and>
   main ''out'' [Tok (EndElement ''work'')] Map.empty = (Some PopWithoutElement, Map.empty)"
proof -
  have h1: "run init_state [] = Inr init_state" by simp
  have h2: "stack init_state = [] \<or> last (stack init_state) \<noteq> ''work''"
    by (simp add: init_state_def)
  have h3: "stack init_state = []" by (simp add: init_state_def)
  show ?thesis
    using malformed_end_tag_aborts [OF h1 h2, of "[]" "''out''" Map.empty] h1 h3 by simp
qed

subsection \<open>Works that carry a make and no model\<close>

text \<open>
  C1. The claim that every work with a make is linked into the list of works of its make
  fails on the feed \<^verbatim>\<open><work><make>Nikon</make></work>\<close>: at the end tag the work is appended to
  the lists of its make and of its model only when both are set (line 1032), so the work
  ends with the make \<^verbatim>\<open>Nikon\<close> while the list of works of \<^verbatim>\<open>Nikon\<close> is empty.
\<close>

theorem work_with_make_only_is_not_linked:
  "run init_state
     ([Tok (StartElement ''work'' [])] @ element ''make'' ''Nikon'' @ [Tok (EndElement ''work'')]) =
   Inr \<lparr>stack = [],
        works = [\<lparr>ID = - 1, FileName = [], WMake = Some 0, WModel = None,
                  URISmall = [], URIMedium = [], URILarge = []\<rparr>],
        makes = [\<lparr>MakeID = 0, MakeName = ''Nikon'', Models = [], MakeWorks = [],
                  MakePageURL = ''Nikon''\<rparr>],
        models = [], worksSM = [], newWork = None, newModelDetected = False, newModel = [],
        thumbnailURI = False, mediumURI = False, largeURI = False\<rparr>"
  by code_simp

text \<open>
  C2. The claim that the list of the works without a make and the lists of works of the
  makes together hold every parsed work fails on the feed
  \<^verbatim>\<open><work></work><work><make>Nikon</make></work>\<close>: the first work is in \<open>worksSM\<close>, the second
  work (address 1) is neither in \<open>worksSM\<close> nor in the list of works of its make.
\<close>

theorem work_with_make_only_is_in_no_list:
  "run init_state
     ([Tok (StartElement ''work'' []), Tok (EndElement ''work''), Tok (StartElement ''work'' [])] @
      element ''make'' ''Nikon'' @ [Tok (EndElement ''work'')]) =
   Inr \<lparr>stack = [],
        works = [\<lparr>ID = - 1, FileName = [], WMake = None, WModel = None,
                  URISmall = [], URIMedium = [], URILarge = []\<rparr>,
                 \<lparr>ID = - 1, FileName = [], WMake = Some 0, WModel = None,
                  URISmall = [], URIMedium = [], URILarge = []\<rparr>],
        makes = [\<lparr>MakeID = 0, MakeName = ''Nikon'', Models = [], MakeWorks = [],
                  MakePageURL = ''Nikon''\<rparr>],
        models = [], worksSM = [0], newWork = None, newModelDetected = False, newModel = [],
        thumbnailURI = False, mediumURI = False, largeURI = False\<rparr>"
  by code_simp

subsection \<open>Text outside a work\<close>

text \<open>
  C6. The claim that no token changes a work once its end tag is read fails on the feed
  \<^verbatim>\<open><work><url type="small">a.jpg</url></work><url type="small">x</url>\<close>: after the end tag
  of the work its small URL is \<^verbatim>\<open>a.jpg\<close> and no work is open; the text of the later \<^verbatim>\<open>url\<close>
  element is assigned to \<^verbatim>\<open>works[len(works)-1]\<close> (line 1170) and makes it \<^verbatim>\<open>x\<close>.
\<close>

theorem finalized_work_is_mutated:
  "works (stateAfter ([Tok (StartElement ''work'' [])] @ url ''small'' ''a.jpg'' @
                       [Tok (EndElement ''work'')])) =
     [\<lparr>ID = - 1, FileName = [], WMake = None, WModel = None,
       URISmall = ''a.jpg'', URIMedium = [], URILarge = []\<rparr>] \<and>
   newWork (stateAfter ([Tok (StartElement ''work'' [])] @ url ''small'' ''a.jpg'' @
                       [Tok (EndElement ''work'')])) = None \<and>
   run init_state ([Tok (StartElement ''work'' [])] @ url ''small'' ''a.jpg'' @
                       [Tok (EndElement ''work'')] @ url ''small'' ''x'') =
   Inr \<lparr>stack = [],
        works = [\<lparr>ID = - 1, FileName = [], WMake = None, WModel = None,
                  URISmall = ''x'', URIMedium = [], URILarge = []\<rparr>],
        makes = [], models = [], worksSM = [0], newWork = None, newModelDetected = False,
        newModel = [], thumbnailURI = False, mediumURI = False, largeURI = False\<rparr>"
  by code_simp

text \<open>
  C7. The claim that the text of a recognised field outside every work aborts the run fails
  for the model and for the URLs: the feed \<^verbatim>\<open><model>D90</model>\<close> is read to the end and leaves
  the model name pending, the feed \<^verbatim>\<open><url type="small">x</url>\<close> is read to the end and its
  text is dropped, and the pending model of \<^verbatim>\<open><model>D90</model><work><make>Nikon</make></work>\<close>
  is given to the work that follows.
\<close>

theorem orphan_model_and_url_text_accepted:
  "run init_state (element ''model'' ''D90'') =
     Inr \<lparr>stack = [], works = [], makes = [], models = [], worksSM = [], newWork = None,
          newModelDetected = True, newModel = ''D90'', thumbnailURI = False,
          mediumURI = False, largeURI = False\<rparr> \<and>
   run init_state (url ''small'' ''x'') = Inr init_state \<and>
   run init_state (element ''model'' ''D90'' @ [Tok (StartElement ''work'' [])] @
                   element ''make'' ''Nikon'' @ [Tok (EndElement ''work'')]) =
     Inr \<lparr>stack = [],
          works = [\<lparr>ID = - 1, FileName = [], WMake = Some 0, WModel = Some 0,
                    URISmall = [], URIMedium = [], URILarge = []\<rparr>],
          makes = [\<lparr>MakeID = 0, MakeName = ''Nikon'', Models = [0], MakeWorks = [0],
                    MakePageURL = ''Nikon''\<rparr>],
          models = [\<lparr>ModelID = 0, MMake = Some 0, ModelWorks = [0], ModelName = ''D90'',
                     ModelPageURL = ''D90''\<rparr>],
          worksSM = [], newWork = None, newModelDetected = False, newModel = [],
          thumbnailURI = False, mediumURI = False, largeURI = False\<rparr>"
  by code_simp

subsection \<open>The pages\<close>

text \<open>
  C9. The claim that every parsed text appears escaped in the pages fails for the heading of
  a make page: for a make of the name \<^verbatim>\<open><b>\<close> (the feed text \<^verbatim>\<open>&lt;b&gt;\<close>, decoded) the
  title holds the escaped name and the heading holds the name as it is.
\<close>

theorem make_page_heading_not_escaped:
  \<open>snd (main ''out''
          ([Tok (StartElement ''work'' [])] @ element ''model'' ''X'' @ element ''make'' ''<b>'' @
           [Tok (EndElement ''work'')]) Map.empty) ''./out/-b-.html'' =
   Some (''<!DOCTYPE html><html><head><title>All photos taken with a &lt;b&gt;</title>'' @
         styleBlock @
         ''</head><body><header><h1>All photos taken with a <i><b></i> camera</h1><nav>'' @
         ''<a href="index.html">back to homepage</a> | '' @
         ''<select onchange="if (this.value) window.location.href=this.value">'' @
         ''<option value="">-- select a camera model</option>'' @
         ''<option value="X.html">X</option></select></nav></header><img src=> </body></html>'')\<close>
  by code_simp

end
